theory Spec2Isabelle
  imports Main
begin

section \<open>JavaScript strings and values\<close>

text \<open>
  A JavaScript value that is either \<open>undefined\<close>/\<open>null\<close> or a string is a
  \<open>string option\<close>. Such a value is truthy when it is a non-empty string.
\<close>

definition truthy :: "string option \<Rightarrow> bool" where
  "truthy v = (case v of None \<Rightarrow> False | Some s \<Rightarrow> s \<noteq> [])"

text \<open>\<open>a || d\<close> for a default string \<open>d\<close>.\<close>

definition js_or :: "string option \<Rightarrow> string \<Rightarrow> string" where
  "js_or v d = (if truthy v then the v else d)"

text \<open>
  \<open>s.split(c)\<close> for a one-character separator: every occurrence of the separator
  ends a segment, segments may be empty, and the empty string yields one empty segment.
\<close>

fun split_char :: "char \<Rightarrow> string \<Rightarrow> string list" where
  "split_char c [] = [[]]"
| "split_char c (x # xs) =
     (if x = c then [] # split_char c xs
      else (case split_char c xs of
              [] \<Rightarrow> [[x]]
            | w # ws \<Rightarrow> (x # w) # ws))"

text \<open>\<open>xs[i]\<close> on an array: \<open>undefined\<close> out of range.\<close>

definition nth_opt :: "'a list \<Rightarrow> nat \<Rightarrow> 'a option" where
  "nth_opt xs i = (if i < length xs then Some (xs ! i) else None)"

text \<open>\<open>xs.join(c)\<close>.\<close>

fun join_char :: "char \<Rightarrow> string list \<Rightarrow> string" where
  "join_char c [] = []"
| "join_char c [w] = w"
| "join_char c (w # v # ws) = w @ c # join_char c (v # ws)"

text \<open>Decimal rendering of a number, as string concatenation with \<open>Date.now()\<close> does.\<close>

fun string_of_nat :: "nat \<Rightarrow> string" where
  "string_of_nat n =
     (if n < 10 then [''0123456789'' ! n]
      else string_of_nat (n div 10) @ [''0123456789'' ! (n mod 10)])"

declare string_of_nat.simps [simp del]

section \<open>Process environment\<close>

text \<open>
  \<open>process.env.JWT_SECRET\<close> and \<open>process.env.JWT_EXPIRES_IN\<close>. The timespan is
  kept as the number of seconds it denotes; \<open>None\<close> is an unset (or empty) variable.
\<close>

record env =
  JWT_SECRET :: "string option"
  JWT_EXPIRES_IN :: "nat option"

section \<open>External libraries\<close>

text \<open>
  The cryptographic primitives and the token wire format belong to the libraries
  \<open>jsonwebtoken\<close> and \<open>bcryptjs\<close>, not to the repository. They are parameters of the
  model: the keyed MAC over a payload, the compact serialisation of a payload with its
  signature, its decoder, and the password hash with its comparison. So are the two
  string functions of the JavaScript runtime that follow the Unicode tables:
  \<open>s.toLowerCase()\<close> and \<open>s.replace(/\s+/g, '_')\<close>.
\<close>

record jwt_payload =
  userId :: string
  iat :: nat
  nbf :: "nat option"
  exp :: "nat option"

record lib =
  jws_mac :: "string \<Rightarrow> jwt_payload \<Rightarrow> string"
  jws_compact :: "jwt_payload \<Rightarrow> string \<Rightarrow> string"
  jws_parse :: "string \<Rightarrow> (jwt_payload \<times> string) option"
  bcrypt_hash :: "string \<Rightarrow> nat \<Rightarrow> string"
  bcrypt_compare :: "string \<Rightarrow> string \<Rightarrow> bool"
  js_toLowerCase :: "string \<Rightarrow> string"
  js_replace_ws :: "string \<Rightarrow> string"

datatype jwt_error = JsonWebTokenError | NotBeforeError | TokenExpiredError

datatype exn =
    TypeError
  | SignError
  | UniqueConstraintViolation
  | RecordNotFound

text \<open>
  \<open>jwt.sign(payload, secret, {expiresIn})\<close> at clock \<open>t\<close> (seconds): refuses a missing
  secret, stamps \<open>iat\<close> and \<open>exp = iat + expiresIn\<close>, and signs.
\<close>

definition jwt_sign :: "lib \<Rightarrow> string \<Rightarrow> string option \<Rightarrow> nat \<Rightarrow> nat \<Rightarrow> exn + string" where
  "jwt_sign L uid secret expiresIn t =
     (if \<not> truthy secret then Inl SignError
      else
        let p = \<lparr>userId = uid, iat = t, nbf = None, exp = Some (t + expiresIn)\<rparr>
        in Inr (jws_compact L p (jws_mac L (the secret) p)))"

text \<open>
  \<open>jwt.verify(token, secret)\<close> at clock \<open>t\<close> (seconds): the structure is decoded, then
  the signature is checked, then \<open>nbf\<close>, then \<open>exp\<close> (expired as soon as the clock
  reaches it).
\<close>

definition jwt_verify :: "lib \<Rightarrow> string \<Rightarrow> string option \<Rightarrow> nat \<Rightarrow> jwt_error + jwt_payload" where
  "jwt_verify L token secret t =
     (case jws_parse L token of
        None \<Rightarrow> Inl JsonWebTokenError
      | Some (p, sg) \<Rightarrow>
          if \<not> truthy secret then Inl JsonWebTokenError
          else if sg \<noteq> jws_mac L (the secret) p then Inl JsonWebTokenError
          else if (case nbf p of None \<Rightarrow> False | Some n \<Rightarrow> t < n) then Inl NotBeforeError
          else if (case exp p of None \<Rightarrow> False | Some e \<Rightarrow> e \<le> t) then Inl TokenExpiredError
          else Inr p)"

section \<open>Token issuer (middleware/auth.js)\<close>

definition seven_days :: nat where
  "seven_days = 7 * 24 * 60 * 60"

text \<open>The clock \<open>now\<close> is \<open>Date.now()\<close>, in milliseconds.\<close>

text \<open>\<open>process.env.JWT_EXPIRES_IN || '7d'\<close>.\<close>

definition expiresIn :: "env \<Rightarrow> nat" where
  "expiresIn E = (case JWT_EXPIRES_IN E of None \<Rightarrow> seven_days | Some s \<Rightarrow> s)"

definition generateToken :: "lib \<Rightarrow> env \<Rightarrow> nat \<Rightarrow> string \<Rightarrow> exn + string" where
  "generateToken L E now uid =
     jwt_sign L uid (JWT_SECRET E) (expiresIn E) (now div 1000)"

definition verifyToken :: "lib \<Rightarrow> env \<Rightarrow> nat \<Rightarrow> string \<Rightarrow> jwt_error + jwt_payload" where
  "verifyToken L E now token = jwt_verify L token (JWT_SECRET E) (now div 1000)"

section \<open>Credential store\<close>

datatype provider = Local | Google | GitHub

definition provider_name :: "provider \<Rightarrow> string" where
  "provider_name p = (case p of Local \<Rightarrow> ''local'' | Google \<Rightarrow> ''google'' | GitHub \<Rightarrow> ''github'')"

text \<open>A row of the user table. The source's field \<open>id\<close> is \<open>id_user\<close> here.\<close>

record user =
  id_user :: string
  username :: string
  firstName :: string
  lastName :: string
  email :: string
  age :: int
  password :: "string option"
  provider :: provider
  providerId :: "string option"
  refreshToken :: "string option"
  createdAt :: nat
  updatedAt :: nat

text \<open>
  The table is the list of its rows in the order in which the store scans them:
  \<open>findUnique\<close> and \<open>findFirst\<close> return the first row that satisfies the filter.
\<close>

definition findUnique_id :: "user list \<Rightarrow> string \<Rightarrow> user option" where
  "findUnique_id db i = find (\<lambda>u. id_user u = i) db"

definition findUnique_email :: "user list \<Rightarrow> string \<Rightarrow> user option" where
  "findUnique_email db e = find (\<lambda>u. email u = e) db"

definition findFirst :: "(user \<Rightarrow> bool) \<Rightarrow> user list \<Rightarrow> user option" where
  "findFirst P db = find P db"

text \<open>
  Modelled from the spec: the schema file \<open>prisma/schema.prisma\<close> is missing. The spec
  gives its constraints: the id identifies the row, the email is globally unique, the
  username is globally unique, and the pair of provider and providerId is unique when
  the providerId is set. \<open>conflicts u v\<close>: the new row \<open>u\<close> violates a constraint
  against the stored row \<open>v\<close>.
\<close>

definition conflicts :: "user \<Rightarrow> user \<Rightarrow> bool" where
  "conflicts u v =
     (id_user v = id_user u \<or> email v = email u \<or> username v = username u \<or>
      (case providerId u of
         None \<Rightarrow> False
       | Some p \<Rightarrow> provider v = provider u \<and> providerId v = Some p))"

text \<open>
  \<open>prisma.user.create\<close>: the row is appended, or the store raises. The id and the two
  time stamps of a new row are not in the \<open>data\<close> of the source: the store fills them
  in. The rows built below carry an identifier \<open>nid\<close> for the one and the clock for
  the others.
\<close>

definition create :: "user list \<Rightarrow> user \<Rightarrow> exn + (user \<times> user list)" where
  "create db u =
     (if list_ex (conflicts u) db then Inl UniqueConstraintViolation
      else Inr (u, db @ [u]))"

text \<open>
  \<open>prisma.user.update({where: {id}, data})\<close>: the row with that id is changed by \<open>f\<close>;
  the store raises when there is no such row, or when the changed row violates a
  constraint against another row. The store writes the changed row as a new version
  of it. Where a later scan without \<open>orderBy\<close> meets that version is the store's
  choice: \<open>pos\<close> is its position among the other rows.
\<close>

definition place :: "nat \<Rightarrow> user \<Rightarrow> user list \<Rightarrow> user list" where
  "place pos u db = take pos db @ u # drop pos db"

definition update ::
  "nat \<Rightarrow> user list \<Rightarrow> string \<Rightarrow> (user \<Rightarrow> user) \<Rightarrow> exn + (user \<times> user list)" where
  "update pos db i f =
     (case find (\<lambda>u. id_user u = i) db of
        None \<Rightarrow> Inl RecordNotFound
      | Some u \<Rightarrow>
          if list_ex (conflicts (f u)) (remove1 u db) then Inl UniqueConstraintViolation
          else Inr (f u, place pos (f u) (remove1 u db)))"

text \<open>
  Modelled from the spec: the state of a store that enforces those constraints on the
  id, the email and the username.
\<close>

definition wf_db :: "user list \<Rightarrow> bool" where
  "wf_db db =
     (distinct (map id_user db) \<and> distinct (map email db) \<and> distinct (map username db))"

section \<open>User objects\<close>

datatype jval = JNull | JStr string | JNum int

type_synonym obj = "(string \<times> jval) list"

definition jopt :: "string option \<Rightarrow> jval" where
  "jopt v = (case v of None \<Rightarrow> JNull | Some s \<Rightarrow> JStr s)"

text \<open>The object the store returns for a row when no \<open>select\<close> is given.\<close>

definition user_obj :: "user \<Rightarrow> obj" where
  "user_obj u =
     [(''id'', JStr (id_user u)),
      (''username'', JStr (username u)),
      (''firstName'', JStr (firstName u)),
      (''lastName'', JStr (lastName u)),
      (''email'', JStr (email u)),
      (''age'', JNum (age u)),
      (''password'', jopt (password u)),
      (''provider'', JStr (provider_name (provider u))),
      (''providerId'', jopt (providerId u)),
      (''refreshToken'', jopt (refreshToken u)),
      (''createdAt'', JNum (int (createdAt u))),
      (''updatedAt'', JNum (int (updatedAt u)))]"

text \<open>The \<open>select\<close> clause that every handler of the source uses.\<close>

definition public_fields :: "string list" where
  "public_fields =
     [''id'', ''username'', ''firstName'', ''lastName'', ''email'', ''age'',
      ''provider'', ''createdAt'', ''updatedAt'']"

definition select :: "string list \<Rightarrow> obj \<Rightarrow> obj" where
  "select ks ob = filter (\<lambda>kv. fst kv \<in> set ks) ob"

text \<open>\<open>const { password, ...rest } = user\<close>.\<close>

definition omit :: "string \<Rightarrow> obj \<Rightarrow> obj" where
  "omit k ob = filter (\<lambda>kv. fst kv \<noteq> k) ob"

definition keys :: "obj \<Rightarrow> string list" where
  "keys ob = map fst ob"

text \<open>\<open>user.id\<close> of a user object.\<close>

definition obj_id :: "obj \<Rightarrow> string option" where
  "obj_id ob = (case map_of ob ''id'' of Some (JStr s) \<Rightarrow> Some s | _ \<Rightarrow> None)"

section \<open>Requests and responses\<close>

text \<open>
  \<open>authorization\<close> is \<open>req.headers.authorization\<close>; \<open>req_user\<close> is \<open>req.user\<close>, which
  the session middleware has filled in before any handler when the session cookie
  identifies a user.
\<close>

record request =
  authorization :: "string option"
  req_user :: "obj option"

datatype body =
    ErrorBody string string
  | MessageBody string
  | UserBody string obj
  | UserTokenBody string obj string
  | Unhandled exn

type_synonym response = "nat \<times> body"

datatype outcome = Next request | Respond response

section \<open>Auth gate (middleware/auth.js)\<close>

text \<open>\<open>authHeader && authHeader.split(' ')[1]\<close>.\<close>

definition bearer :: "request \<Rightarrow> string option" where
  "bearer req =
     (case authorization req of
        None \<Rightarrow> None
      | Some a \<Rightarrow> if a = [] then Some [] else nth_opt (split_char CHR '' '' a) 1)"

definition authenticateJWT :: "lib \<Rightarrow> env \<Rightarrow> nat \<Rightarrow> user list \<Rightarrow> request \<Rightarrow> outcome" where
  "authenticateJWT L E now db req =
     (let token = bearer req in
      if \<not> truthy token then
        Respond (401, ErrorBody ''Unauthorized'' ''Access token is required'')
      else
        (case verifyToken L E now (the token) of
           Inr decoded \<Rightarrow>
             (case findUnique_id db (userId decoded) of
                None \<Rightarrow> Respond (401, ErrorBody ''Unauthorized'' ''User not found'')
              | Some u \<Rightarrow> Next (req\<lparr>req_user := Some (select public_fields (user_obj u))\<rparr>))
         | Inl JsonWebTokenError \<Rightarrow>
             Respond (401, ErrorBody ''Unauthorized'' ''Invalid token'')
         | Inl TokenExpiredError \<Rightarrow>
             Respond (401, ErrorBody ''Unauthorized'' ''Token expired'')
         | Inl NotBeforeError \<Rightarrow>
             Respond (500, ErrorBody ''Internal Server Error'' ''Authentication failed'')))"

definition isAuthenticated :: "request \<Rightarrow> bool" where
  "isAuthenticated req = (case req_user req of None \<Rightarrow> False | Some _ \<Rightarrow> True)"

definition authenticateSession :: "request \<Rightarrow> outcome" where
  "authenticateSession req =
     (if isAuthenticated req then Next req
      else Respond (401, ErrorBody ''Unauthorized'' ''Please log in to access this resource''))"

definition authenticate :: "lib \<Rightarrow> env \<Rightarrow> nat \<Rightarrow> user list \<Rightarrow> request \<Rightarrow> outcome" where
  "authenticate L E now db req =
     (let token = bearer req in
      if truthy token then authenticateJWT L E now db req
      else authenticateSession req)"

definition optionalAuth :: "lib \<Rightarrow> env \<Rightarrow> nat \<Rightarrow> user list \<Rightarrow> request \<Rightarrow> outcome" where
  "optionalAuth L E now db req =
     (let token = bearer req in
      if truthy token then
        (case verifyToken L E now (the token) of
           Inr decoded \<Rightarrow>
             (case findUnique_id db (userId decoded) of
                Some u \<Rightarrow> Next (req\<lparr>req_user := Some (select public_fields (user_obj u))\<rparr>)
              | None \<Rightarrow> Next req)
         | Inl error \<Rightarrow> Next req)
      else Next req)"

section \<open>Identity resolver: local accounts\<close>

text \<open>
  \<open>register\<close> (controllers/authController.js). The arguments after the store are the
  fields of the request body; \<open>nid\<close> is the identifier the store gives a new row.
\<close>

definition register ::
  "lib \<Rightarrow> env \<Rightarrow> nat \<Rightarrow> string \<Rightarrow> user list \<Rightarrow>
   string \<Rightarrow> string \<Rightarrow> string \<Rightarrow> string \<Rightarrow> int \<Rightarrow> string \<Rightarrow> response \<times> user list" where
  "register L E now nid db un fn ln em ag pw =
     (case findFirst (\<lambda>u. email u = em \<or> username u = un) db of
        Some existingUser \<Rightarrow>
          ((400, ErrorBody ''User Already Exists''
                   (if email existingUser = em then ''User with this email already exists''
                    else ''Username is already taken'')), db)
      | None \<Rightarrow>
          (let hashedPassword = bcrypt_hash L pw 12 in
           case create db
                  \<lparr>id_user = nid, username = un, firstName = fn, lastName = ln, email = em,
                   age = ag, password = Some hashedPassword, provider = Local,
                   providerId = None, refreshToken = None, createdAt = now, updatedAt = now\<rparr> of
             Inl e \<Rightarrow> ((500, ErrorBody ''Internal Server Error'' ''Failed to register user''), db)
           | Inr (u, db') \<Rightarrow>
               (case generateToken L E now (id_user u) of
                  Inl e \<Rightarrow>
                    ((500, ErrorBody ''Internal Server Error'' ''Failed to register user''), db')
                | Inr token \<Rightarrow>
                    ((201, UserTokenBody ''User registered successfully''
                             (select public_fields (user_obj u)) token), db'))))"

text \<open>
  The callback of the local strategy (config/passport.js): \<open>Inl message\<close> is
  \<open>done(null, false, {message})\<close>, \<open>Inr user\<close> is \<open>done(null, user)\<close>.
\<close>

definition loginLocal :: "lib \<Rightarrow> user list \<Rightarrow> string \<Rightarrow> string \<Rightarrow> string + obj" where
  "loginLocal L db em pw =
     (case findUnique_email db em of
        None \<Rightarrow> Inl ''Invalid email or password''
      | Some u \<Rightarrow>
          if \<not> truthy (password u) then Inl ''Please use OAuth to login''
          else if \<not> bcrypt_compare L pw (the (password u)) then Inl ''Invalid email or password''
          else Inr (omit ''password'' (user_obj u)))"

text \<open>
  \<open>login\<close> (controllers/authController.js) around that callback. A throw inside the
  callback of \<open>req.logIn\<close> is outside every \<open>try\<close> and reaches the error handler of the
  application.
\<close>

definition login :: "lib \<Rightarrow> env \<Rightarrow> nat \<Rightarrow> user list \<Rightarrow> string \<Rightarrow> string \<Rightarrow> response" where
  "login L E now db em pw =
     (case loginLocal L db em pw of
        Inl message \<Rightarrow>
          (401, ErrorBody ''Authentication Failed'' (js_or (Some message) ''Invalid credentials''))
      | Inr u \<Rightarrow>
          (case obj_id u of
             None \<Rightarrow> (500, Unhandled TypeError)
           | Some i \<Rightarrow>
               (case generateToken L E now i of
                  Inl e \<Rightarrow> (500, Unhandled e)
                | Inr token \<Rightarrow> (200, UserTokenBody ''Login successful'' u token))))"

section \<open>Identity resolver: OAuth accounts\<close>

text \<open>
  The profile that the OAuth strategy libraries hand to the callbacks: \<open>profile.id\<close>,
  \<open>profile.username\<close>, \<open>profile.displayName\<close>, the values of \<open>profile.emails\<close> (empty
  when the provider reports none), and \<open>profile.name\<close> with its \<open>givenName\<close> and
  \<open>familyName\<close>. The Google strategy library leaves \<open>profile.name\<close> undefined when the
  provider reports neither part.
\<close>

record name_parts =
  givenName :: "string option"
  familyName :: "string option"

record profile =
  profile_id :: string
  profile_username :: "string option"
  displayName :: "string option"
  emails :: "string list"
  name :: "name_parts option"

text \<open>
  The \<open>data\<close> of both updates: provider, providerId and refreshToken. The store leaves
  a field alone whose value in \<open>data\<close> is \<open>undefined\<close>, which is what the refresh token
  is when the provider sends none; it stamps \<open>updatedAt\<close>.
\<close>

definition link :: "provider \<Rightarrow> string \<Rightarrow> string option \<Rightarrow> nat \<Rightarrow> user \<Rightarrow> user" where
  "link P pid rt now u =
     u\<lparr>provider := P, providerId := Some pid,
       refreshToken := (case rt of None \<Rightarrow> refreshToken u | Some r \<Rightarrow> Some r),
       updatedAt := now\<rparr>"

text \<open>The \<open>where\<close> and the \<open>data\<close> of the Google callback.\<close>

definition google_where :: "string \<Rightarrow> string \<Rightarrow> user \<Rightarrow> bool" where
  "google_where e pid u = (email u = e \<or> (provider u = Google \<and> providerId u = Some pid))"

definition google_data ::
  "nat \<Rightarrow> string \<Rightarrow> string option \<Rightarrow> profile \<Rightarrow> string \<Rightarrow> name_parts \<Rightarrow> user" where
  "google_data now nid rt pr e n =
     \<lparr>id_user = nid,
      username = takeWhile (\<lambda>c. c \<noteq> CHR ''@'') e @ ''_'' @ string_of_nat now,
      firstName = js_or (givenName n) ''Unknown'',
      lastName = js_or (familyName n) ''User'',
      email = e,
      age = 18,
      password = None,
      provider = Google,
      providerId = Some (profile_id pr),
      refreshToken = rt,
      createdAt = now, updatedAt = now\<rparr>"

text \<open>
  The callback of the Google strategy. Reading \<open>profile.emails[0].value\<close> throws when
  the profile has no email; reading \<open>profile.name.givenName\<close>, when the \<open>data\<close> of the
  new row is built, throws when the profile has no name.
\<close>

definition googleStrategy ::
  "nat \<Rightarrow> string \<Rightarrow> nat \<Rightarrow> user list \<Rightarrow> string option \<Rightarrow> profile \<Rightarrow>
   exn + (obj \<times> user list)" where
  "googleStrategy now nid pos db rt pr =
     (case emails pr of
        [] \<Rightarrow> Inl TypeError
      | e # _ \<Rightarrow>
          (case findFirst (google_where e (profile_id pr)) db of
             Some found \<Rightarrow>
               (case update pos db (id_user found) (link Google (profile_id pr) rt now) of
                  Inl x \<Rightarrow> Inl x
                | Inr (u, db') \<Rightarrow> Inr (omit ''password'' (user_obj u), db'))
           | None \<Rightarrow>
               (case name pr of
                  None \<Rightarrow> Inl TypeError
                | Some n \<Rightarrow>
                    (case create db (google_data now nid rt pr e n) of
                       Inl x \<Rightarrow> Inl x
                     | Inr (u, db') \<Rightarrow> Inr (omit ''password'' (user_obj u), db')))))"

text \<open>\<open>profile.emails?.[0]?.value\<close>.\<close>

definition first_email :: "profile \<Rightarrow> string option" where
  "first_email pr = (case emails pr of [] \<Rightarrow> None | e # _ \<Rightarrow> Some e)"

text \<open>A value inside a template literal: \<open>undefined\<close> prints as that word.\<close>

definition template :: "string option \<Rightarrow> string" where
  "template v = (case v of None \<Rightarrow> ''undefined'' | Some s \<Rightarrow> s)"

text \<open>The three fields that the GitHub callback derives from the profile.\<close>

definition github_username :: "lib \<Rightarrow> nat \<Rightarrow> profile \<Rightarrow> string" where
  "github_username L now pr =
     (if truthy (profile_username pr) then the (profile_username pr)
      else js_or (map_option (\<lambda>d. js_toLowerCase L (js_replace_ws L d)) (displayName pr))
                 (''github_user_'' @ string_of_nat now))"

definition github_firstName :: "profile \<Rightarrow> string" where
  "github_firstName pr =
     (let w = (case displayName pr of None \<Rightarrow> None | Some d \<Rightarrow> nth_opt (split_char CHR '' '' d) 0)
      in if truthy w then the w else js_or (profile_username pr) ''Unknown'')"

definition github_lastName :: "profile \<Rightarrow> string" where
  "github_lastName pr =
     js_or (map_option (\<lambda>d. join_char CHR '' '' (drop 1 (split_char CHR '' '' d))) (displayName pr))
           ''User''"

text \<open>
  The \<open>where\<close> and the \<open>data\<close> of the GitHub callback. A filter whose value is
  \<open>undefined\<close> is no filter for the store, so without an email the lookup is by
  provider and providerId alone.
\<close>

definition github_where :: "string option \<Rightarrow> string \<Rightarrow> user \<Rightarrow> bool" where
  "github_where e pid u =
     ((case e of None \<Rightarrow> False | Some x \<Rightarrow> email u = x) \<or>
      (provider u = GitHub \<and> providerId u = Some pid))"

definition github_data :: "lib \<Rightarrow> nat \<Rightarrow> string \<Rightarrow> string option \<Rightarrow> profile \<Rightarrow> user" where
  "github_data L now nid rt pr =
     \<lparr>id_user = nid,
      username = github_username L now pr,
      firstName = github_firstName pr,
      lastName = github_lastName pr,
      email = js_or (first_email pr) (template (profile_username pr) @ ''@github.local''),
      age = 18,
      password = None,
      provider = GitHub,
      providerId = Some (profile_id pr),
      refreshToken = rt,
      createdAt = now, updatedAt = now\<rparr>"

text \<open>The callback of the GitHub strategy.\<close>

definition githubStrategy ::
  "lib \<Rightarrow> nat \<Rightarrow> string \<Rightarrow> nat \<Rightarrow> user list \<Rightarrow> string option \<Rightarrow> profile \<Rightarrow>
   exn + (obj \<times> user list)" where
  "githubStrategy L now nid pos db rt pr =
     (case findFirst (github_where (first_email pr) (profile_id pr)) db of
        Some found \<Rightarrow>
          (case update pos db (id_user found) (link GitHub (profile_id pr) rt now) of
             Inl x \<Rightarrow> Inl x
           | Inr (u, db') \<Rightarrow> Inr (omit ''password'' (user_obj u), db'))
      | None \<Rightarrow>
          (case create db (github_data L now nid rt pr) of
             Inl x \<Rightarrow> Inl x
           | Inr (u, db') \<Rightarrow> Inr (omit ''password'' (user_obj u), db')))"

section \<open>Handlers that return a user (routes/auth.js, controllers/authController.js)\<close>

text \<open>
  The route handlers behind the two OAuth callbacks. After the strategy has succeeded,
  \<open>req.user\<close> is the object the strategy passed on; an error of the strategy goes to
  the error handler of the application.
\<close>

definition oauthCallback ::
  "lib \<Rightarrow> env \<Rightarrow> nat \<Rightarrow> string \<Rightarrow> user list \<Rightarrow> exn + (obj \<times> user list) \<Rightarrow> response \<times> user list" where
  "oauthCallback L E now message db r =
     (case r of
        Inl x \<Rightarrow> ((500, Unhandled x), db)
      | Inr (u, db') \<Rightarrow>
          (case obj_id u of
             None \<Rightarrow> ((500, Unhandled TypeError), db')
           | Some i \<Rightarrow>
               (case generateToken L E now i of
                  Inl e \<Rightarrow> ((500, Unhandled e), db')
                | Inr token \<Rightarrow> ((200, UserTokenBody message u token), db'))))"

definition googleCallback ::
  "lib \<Rightarrow> env \<Rightarrow> nat \<Rightarrow> string \<Rightarrow> nat \<Rightarrow> user list \<Rightarrow> string option \<Rightarrow> profile \<Rightarrow>
   response \<times> user list" where
  "googleCallback L E now nid pos db rt pr =
     oauthCallback L E now ''Google OAuth login successful'' db
       (googleStrategy now nid pos db rt pr)"

definition githubCallback ::
  "lib \<Rightarrow> env \<Rightarrow> nat \<Rightarrow> string \<Rightarrow> nat \<Rightarrow> user list \<Rightarrow> string option \<Rightarrow> profile \<Rightarrow>
   response \<times> user list" where
  "githubCallback L E now nid pos db rt pr =
     oauthCallback L E now ''GitHub OAuth login successful'' db
       (githubStrategy L now nid pos db rt pr)"

text \<open>\<open>getProfile\<close>: reads \<open>req.user.id\<close>; every throw is caught and answered with 500.\<close>

definition getProfile :: "user list \<Rightarrow> request \<Rightarrow> response" where
  "getProfile db req =
     (case req_user req of
        None \<Rightarrow> (500, ErrorBody ''Internal Server Error'' ''Failed to retrieve profile'')
      | Some ru \<Rightarrow>
          (case obj_id ru of
             None \<Rightarrow> (500, ErrorBody ''Internal Server Error'' ''Failed to retrieve profile'')
           | Some i \<Rightarrow>
               (case findUnique_id db i of
                  None \<Rightarrow> (404, ErrorBody ''User Not Found'' ''User profile not found'')
                | Some u \<Rightarrow>
                    (200, UserBody ''Profile retrieved successfully''
                            (select public_fields (user_obj u))))))"

text \<open>
  \<open>updateProfile\<close>: the fields of the body are optional (\<open>None\<close> is \<open>undefined\<close>);
  \<open>uid\<close> is the source's \<open>userId = req.user.id\<close>.
\<close>

definition updateData ::
  "string option \<Rightarrow> string option \<Rightarrow> string option \<Rightarrow> string option \<Rightarrow> int option \<Rightarrow> nat \<Rightarrow>
   user \<Rightarrow> user" where
  "updateData un fn ln em ag now u =
     u\<lparr>username := (case un of None \<Rightarrow> username u | Some x \<Rightarrow> x),
       firstName := (case fn of None \<Rightarrow> firstName u | Some x \<Rightarrow> x),
       lastName := (case ln of None \<Rightarrow> lastName u | Some x \<Rightarrow> x),
       email := (case em of None \<Rightarrow> email u | Some x \<Rightarrow> x),
       age := (case ag of None \<Rightarrow> age u | Some x \<Rightarrow> x),
       updatedAt := now\<rparr>"

definition updateProfile ::
  "nat \<Rightarrow> nat \<Rightarrow> user list \<Rightarrow> request \<Rightarrow>
   string option \<Rightarrow> string option \<Rightarrow> string option \<Rightarrow> string option \<Rightarrow> int option \<Rightarrow>
   response \<times> user list" where
  "updateProfile now pos db req un fn ln em ag =
     (case (case req_user req of None \<Rightarrow> None | Some ru \<Rightarrow> obj_id ru) of
        None \<Rightarrow> ((500, ErrorBody ''Internal Server Error'' ''Failed to update profile''), db)
      | Some uid \<Rightarrow>
          (case (if truthy un \<or> truthy em
                 then findFirst (\<lambda>u. id_user u \<noteq> uid \<and>
                                      ((truthy un \<and> username u = the un) \<or>
                                       (truthy em \<and> email u = the em))) db
                 else None) of
             Some existingUser \<Rightarrow>
               ((400, ErrorBody ''Conflict''
                        (if Some (username existingUser) = un then ''Username is already taken''
                         else ''Email is already in use'')), db)
           | None \<Rightarrow>
               (case update pos db uid (updateData un fn ln em ag now) of
                  Inl x \<Rightarrow> ((500, ErrorBody ''Internal Server Error'' ''Failed to update profile''), db)
                | Inr (u, db') \<Rightarrow>
                    ((200, UserBody ''Profile updated successfully''
                             (select public_fields (user_obj u))), db'))))"

text \<open>The user object of a response, when it has one.\<close>

definition body_user :: "response \<Rightarrow> obj option" where
  "body_user r =
     (case snd r of
        UserBody m u \<Rightarrow> Some u
      | UserTokenBody m u t \<Rightarrow> Some u
      | _ \<Rightarrow> None)"

definition exposes_password :: "response \<Rightarrow> bool" where
  "exposes_password r =
     (case body_user r of None \<Rightarrow> False | Some u \<Rightarrow> ''password'' \<in> set (keys u))"

section \<open>An instance of the library parameters\<close>

text \<open>
  A small executable instance, to run the model on concrete inputs: a token is the
  text \<open>userId.iat.exp.signature\<close>, the MAC and the hash are tagged concatenations,
  and the two string functions are what the runtime computes on ASCII text.
\<close>

definition is_space :: "char \<Rightarrow> bool" where
  "is_space c = (c \<in> set [CHR '' '', CHR 0x09, CHR 0x0A, CHR 0x0B, CHR 0x0C, CHR 0x0D])"

text \<open>Every maximal run of blanks, tabs, line feeds, vertical tabs, form feeds and
  carriage returns becomes one underscore. The flag says that the previous character
  was one of them.\<close>

fun replace_ws :: "bool \<Rightarrow> string \<Rightarrow> string" where
  "replace_ws b [] = []"
| "replace_ws b (c # cs) =
     (if is_space c then (if b then replace_ws True cs else CHR ''_'' # replace_ws True cs)
      else c # replace_ws False cs)"

text \<open>The letters A to Z become a to z.\<close>

definition lower_char :: "char \<Rightarrow> char" where
  "lower_char c =
     (let n = (of_char c :: nat) in if 65 \<le> n \<and> n \<le> 90 then char_of (n + 32) else c)"

definition toLowerCase :: "string \<Rightarrow> string" where
  "toLowerCase s = map lower_char s"


definition digit_val :: "char \<Rightarrow> nat option" where
  "digit_val c =
     (let n = (of_char c :: nat) in if 48 \<le> n \<and> n \<le> 57 then Some (n - 48) else None)"

fun nat_of_digits :: "nat \<Rightarrow> string \<Rightarrow> nat option" where
  "nat_of_digits acc [] = Some acc"
| "nat_of_digits acc (c # cs) =
     (case digit_val c of None \<Rightarrow> None | Some d \<Rightarrow> nat_of_digits (10 * acc + d) cs)"

definition nat_of_string :: "string \<Rightarrow> nat option" where
  "nat_of_string s = (if s = [] then None else nat_of_digits 0 s)"

definition demo_compact :: "jwt_payload \<Rightarrow> string \<Rightarrow> string" where
  "demo_compact p sg =
     join_char CHR ''.''
       [userId p, string_of_nat (iat p),
        (case exp p of None \<Rightarrow> [] | Some e \<Rightarrow> string_of_nat e), sg]"

definition demo_parse :: "string \<Rightarrow> (jwt_payload \<times> string) option" where
  "demo_parse t =
     (case split_char CHR ''.'' t of
        [u, i, e, sg] \<Rightarrow>
          (case nat_of_string i of
             None \<Rightarrow> None
           | Some i' \<Rightarrow>
               if e = [] then Some (\<lparr>userId = u, iat = i', nbf = None, exp = None\<rparr>, sg)
               else (case nat_of_string e of
                       None \<Rightarrow> None
                     | Some e' \<Rightarrow> Some (\<lparr>userId = u, iat = i', nbf = None, exp = Some e'\<rparr>, sg)))
      | _ \<Rightarrow> None)"

definition demo_lib :: lib where
  "demo_lib =
     \<lparr>jws_mac = (\<lambda>k p. ''mac-'' @ k @ ''-'' @ userId p),
      jws_compact = demo_compact,
      jws_parse = demo_parse,
      bcrypt_hash = (\<lambda>pw rounds. ''hash-'' @ pw),
      bcrypt_compare = (\<lambda>pw h. h = ''hash-'' @ pw),
      js_toLowerCase = toLowerCase,
      js_replace_ws = replace_ws False\<rparr>"

definition demo_env :: env where
  "demo_env = \<lparr>JWT_SECRET = Some ''s3cret'', JWT_EXPIRES_IN = Some 60\<rparr>"

text \<open>Two stored accounts: a Google account, and after it a local account.\<close>

definition bob :: user where
  "bob =
     \<lparr>id_user = ''u2'', username = ''bob'', firstName = ''Bob'', lastName = ''Builder'',
      email = ''b@x.com'', age = 41, password = None, provider = Google,
      providerId = Some ''g-2'', refreshToken = None, createdAt = 1, updatedAt = 1\<rparr>"

definition alice :: user where
  "alice =
     \<lparr>id_user = ''u1'', username = ''alice'', firstName = ''Alice'', lastName = ''Liddell'',
      email = ''a@x.com'', age = 30, password = Some ''hash-pw1'', provider = Local,
      providerId = None, refreshToken = None, createdAt = 2, updatedAt = 2\<rparr>"

definition demo_db :: "user list" where
  "demo_db = [bob, alice]"

text \<open>
  Profiles as the strategies report them: a new Google user without family name; the
  local account's owner coming in through GitHub and through Google with the same
  email; the stored Google account reporting the local account's email; a Google
  profile without email and one without name; a GitHub profile without email whose
  user name is taken.
\<close>

definition carol_google :: profile where
  "carol_google =
     \<lparr>profile_id = ''g-7'', profile_username = None, displayName = Some ''Carol Jones'',
      emails = [''c@x.com''],
      name = Some \<lparr>givenName = Some ''Carol'', familyName = None\<rparr>\<rparr>"

definition alice_github :: profile where
  "alice_github =
     \<lparr>profile_id = ''gh-1'', profile_username = Some ''alice-gh'',
      displayName = Some ''Alice Liddell'', emails = [''a@x.com''], name = None\<rparr>"

definition alice_google :: profile where
  "alice_google =
     \<lparr>profile_id = ''g-1'', profile_username = None, displayName = Some ''Alice Liddell'',
      emails = [''a@x.com''],
      name = Some \<lparr>givenName = Some ''Alice'', familyName = Some ''Liddell''\<rparr>\<rparr>"

definition bob_google :: profile where
  "bob_google =
     \<lparr>profile_id = ''g-2'', profile_username = None, displayName = Some ''Bob Builder'',
      emails = [''a@x.com''],
      name = Some \<lparr>givenName = Some ''Bob'', familyName = Some ''Builder''\<rparr>\<rparr>"

definition nomail_google :: profile where
  "nomail_google =
     \<lparr>profile_id = ''g-9'', profile_username = None, displayName = Some ''No Mail'',
      emails = [],
      name = Some \<lparr>givenName = Some ''No'', familyName = Some ''Mail''\<rparr>\<rparr>"

definition noname_google :: profile where
  "noname_google =
     \<lparr>profile_id = ''g-8'', profile_username = None, displayName = None,
      emails = [''n@x.com''], name = None\<rparr>"

definition taken_github :: profile where
  "taken_github =
     \<lparr>profile_id = ''gh-7'', profile_username = Some ''alice'', displayName = None,
      emails = [], name = None\<rparr>"

section \<open>Facts about the string helpers and the store\<close>

lemmas demo_defs =
  demo_lib_def demo_env_def demo_db_def alice_def bob_def demo_parse_def demo_compact_def
  nat_of_string_def digit_val_def

lemmas profile_defs =
  carol_google_def alice_github_def alice_google_def bob_google_def nomail_google_def
  noname_google_def taken_github_def

lemmas oauth_defs =
  googleStrategy_def githubStrategy_def findFirst_def google_where_def github_where_def
  google_data_def github_data_def first_email_def create_def update_def place_def
  conflicts_def link_def truthy_def js_or_def template_def

lemmas gate_defs =
  bearer_def truthy_def nth_opt_def verifyToken_def jwt_verify_def findUnique_id_def

lemma split_char_not_Nil: "split_char c s \<noteq> []"
  by (induction s) (auto split: list.splits)

lemma split_char_no_sep: "c \<notin> set s \<Longrightarrow> split_char c s = [s]"
  by (induction s) (auto split: list.splits)

lemma split_char_append: "c \<notin> set s \<Longrightarrow> split_char c (s @ c # v) = s # split_char c v"
  by (induction s) (auto split: list.splits)

lemma hd_split_char: "hd (split_char c v) = takeWhile (\<lambda>x. x \<noteq> c) v"
  by (induction v) (auto simp: split_char_not_Nil split: list.splits)

lemma bearer_scheme:
  assumes "authorization req = Some (scheme @ CHR '' '' # v)" "CHR '' '' \<notin> set scheme"
  shows "bearer req = Some (takeWhile (\<lambda>c. c \<noteq> CHR '' '') v)"
proof -
  have "split_char CHR '' '' v \<noteq> []" by (rule split_char_not_Nil)
  then have "(scheme # split_char CHR '' '' v) ! 1 = hd (split_char CHR '' '' v)"
    by (simp add: hd_conv_nth)
  with assms show ?thesis
    using split_char_not_Nil [of "CHR '' ''" v]
    by (simp add: bearer_def nth_opt_def split_char_append hd_split_char)
qed

lemma bearer_no_space:
  assumes "authorization req = Some h" "CHR '' '' \<notin> set h"
  shows "\<not> truthy (bearer req)"
  using assms by (simp add: bearer_def nth_opt_def split_char_no_sep truthy_def)

lemma bearer_req_user [simp]: "bearer (req\<lparr>req_user := s\<rparr>) = bearer req"
  by (simp add: bearer_def)

lemma findUnique_id_Some: "findUnique_id db i = Some u \<Longrightarrow> u \<in> set db \<and> id_user u = i"
  by (auto simp: findUnique_id_def find_Some_iff)

section \<open>Auth gate\<close>

text \<open>
  Claim C10. The gate takes the second space-separated segment of the Authorization
  header as the token and never looks at the scheme. For a header made of any scheme
  without a space, one space, and a value that does not begin with a space, the token
  is the value up to its first space, it is truthy, and \<open>authenticate\<close> takes the token
  path. A header without any space yields no token, and \<open>authenticate\<close> falls through
  to session authentication.
\<close>

theorem authenticate_scheme_unchecked:
  "(authorization req = Some (scheme @ CHR '' '' # v) \<and> CHR '' '' \<notin> set scheme \<and>
      v \<noteq> [] \<and> hd v \<noteq> CHR '' ''
      \<longrightarrow> bearer req = Some (takeWhile (\<lambda>c. c \<noteq> CHR '' '') v) \<and> truthy (bearer req) \<and>
          authenticate L E now db req = authenticateJWT L E now db req) \<and>
   (authorization req = Some h \<and> CHR '' '' \<notin> set h
      \<longrightarrow> \<not> truthy (bearer req) \<and> authenticate L E now db req = authenticateSession req)"
proof (intro conjI impI)
  assume a: "authorization req = Some (scheme @ CHR '' '' # v) \<and> CHR '' '' \<notin> set scheme \<and>
      v \<noteq> [] \<and> hd v \<noteq> CHR '' ''"
  then show b: "bearer req = Some (takeWhile (\<lambda>c. c \<noteq> CHR '' '') v)"
    by (simp add: bearer_scheme)
  from a have "takeWhile (\<lambda>c. c \<noteq> CHR '' '') v \<noteq> []"
    by (cases v) auto
  with b show t: "truthy (bearer req)" by (simp add: truthy_def)
  then show "authenticate L E now db req = authenticateJWT L E now db req"
    by (simp add: authenticate_def)
next
  assume a: "authorization req = Some h \<and> CHR '' '' \<notin> set h"
  then show t: "\<not> truthy (bearer req)" by (simp add: bearer_no_space)
  then show "authenticate L E now db req = authenticateSession req"
    by (simp add: authenticate_def)
qed

text \<open>
  Witness for C10: the header \<open>Basic xyz\<close> puts \<open>xyz\<close> on the token path, where it is
  refused as an invalid token; the header \<open>Token\<close>, without a space, goes to the session
  path.
\<close>

theorem authenticate_scheme_unchecked_witness:
  "bearer \<lparr>authorization = Some ''Basic xyz'', req_user = None\<rparr> = Some ''xyz'' \<and>
   authenticate demo_lib demo_env 10000 demo_db
     \<lparr>authorization = Some ''Basic xyz'', req_user = None\<rparr> =
   authenticateJWT demo_lib demo_env 10000 demo_db
     \<lparr>authorization = Some ''Basic xyz'', req_user = None\<rparr> \<and>
   authenticateJWT demo_lib demo_env 10000 demo_db
     \<lparr>authorization = Some ''Basic xyz'', req_user = None\<rparr> =
   Respond (401, ErrorBody ''Unauthorized'' ''Invalid token'') \<and>
   authenticate demo_lib demo_env 10000 demo_db
     \<lparr>authorization = Some ''Token'', req_user = None\<rparr> =
   authenticateSession \<lparr>authorization = Some ''Token'', req_user = None\<rparr>"
proof -
  let ?basic = "\<lparr>authorization = Some ''Basic xyz'', req_user = None :: obj option\<rparr>"
  let ?token = "\<lparr>authorization = Some ''Token'', req_user = None :: obj option\<rparr>"
  have "authenticateJWT demo_lib demo_env 10000 demo_db ?basic =
        Respond (401, ErrorBody ''Unauthorized'' ''Invalid token'')"
    by (simp add: authenticateJWT_def gate_defs demo_defs)
  then show ?thesis
    using authenticate_scheme_unchecked
            [of ?basic "''Basic''" "''xyz''" demo_lib demo_env 10000 demo_db "''Token''"]
          authenticate_scheme_unchecked
            [of ?token "''Basic''" "''xyz''" demo_lib demo_env 10000 demo_db "''Token''"]
    by simp
qed

text \<open>
  Claim C3. For a request that carries a token, \<open>authenticate\<close> takes the token path
  only: its outcome does not depend on the identity the session attached. An expired
  token is refused with \<open>Token expired\<close>, a malformed one with \<open>Invalid token\<close>; a valid
  token whose user is no longer stored is refused with \<open>User not found\<close>; otherwise the
  row with the token's user id is read from the store and its selected fields are
  attached to the request. Without a token the outcome is that of session
  authentication.
\<close>

theorem authenticate_token_path:
  "(truthy (bearer req) \<longrightarrow>
      authenticate L E now db (req\<lparr>req_user := s\<rparr>) = authenticate L E now db req \<and>
      (verifyToken L E now (the (bearer req)) = Inl TokenExpiredError \<longrightarrow>
         authenticate L E now db req = Respond (401, ErrorBody ''Unauthorized'' ''Token expired'')) \<and>
      (verifyToken L E now (the (bearer req)) = Inl JsonWebTokenError \<longrightarrow>
         authenticate L E now db req = Respond (401, ErrorBody ''Unauthorized'' ''Invalid token'')) \<and>
      (verifyToken L E now (the (bearer req)) = Inr d \<and> findUnique_id db (userId d) = None \<longrightarrow>
         authenticate L E now db req = Respond (401, ErrorBody ''Unauthorized'' ''User not found'')) \<and>
      (verifyToken L E now (the (bearer req)) = Inr d \<and> findUnique_id db (userId d) = Some u \<longrightarrow>
         u \<in> set db \<and> id_user u = userId d \<and>
         authenticate L E now db req =
           Next (req\<lparr>req_user := Some (select public_fields (user_obj u))\<rparr>))) \<and>
   (\<not> truthy (bearer req) \<longrightarrow> authenticate L E now db req = authenticateSession req)"
  by (auto simp: authenticate_def authenticateJWT_def Let_def dest: findUnique_id_Some
        split: sum.splits option.splits jwt_error.splits)

text \<open>
  Witness for C3: a valid token of the stored user \<open>u1\<close>, the same token after its
  expiry, a malformed token, a valid token of a user that is not stored, and a request
  without a header.
\<close>

theorem authenticate_token_path_witness:
  "authenticate demo_lib demo_env 10000 demo_db
     \<lparr>authorization = Some ''Bearer u1.5.65.mac-s3cret-u1'', req_user = None\<rparr> =
   Next \<lparr>authorization = Some ''Bearer u1.5.65.mac-s3cret-u1'',
         req_user = Some (select public_fields (user_obj alice))\<rparr> \<and>
   authenticate demo_lib demo_env 65000 demo_db
     \<lparr>authorization = Some ''Bearer u1.5.65.mac-s3cret-u1'', req_user = None\<rparr> =
   Respond (401, ErrorBody ''Unauthorized'' ''Token expired'') \<and>
   authenticate demo_lib demo_env 10000 demo_db
     \<lparr>authorization = Some ''Bearer garbage'', req_user = None\<rparr> =
   Respond (401, ErrorBody ''Unauthorized'' ''Invalid token'') \<and>
   authenticate demo_lib demo_env 10000 demo_db
     \<lparr>authorization = Some ''Bearer u9.5.65.mac-s3cret-u9'', req_user = None\<rparr> =
   Respond (401, ErrorBody ''Unauthorized'' ''User not found'') \<and>
   authenticate demo_lib demo_env 10000 demo_db \<lparr>authorization = None, req_user = None\<rparr> =
   authenticateSession \<lparr>authorization = None, req_user = None\<rparr>"
proof -
  let ?ok = "\<lparr>authorization = Some ''Bearer u1.5.65.mac-s3cret-u1'', req_user = None\<rparr>"
  let ?bad = "\<lparr>authorization = Some ''Bearer garbage'', req_user = None\<rparr>"
  let ?gone = "\<lparr>authorization = Some ''Bearer u9.5.65.mac-s3cret-u9'', req_user = None\<rparr>"
  let ?none = "\<lparr>authorization = None, req_user = None :: obj option\<rparr>"
  let ?d = "\<lparr>userId = ''u1'', iat = 5, nbf = None, exp = Some 65\<rparr>"
  let ?g = "\<lparr>userId = ''u9'', iat = 5, nbf = None, exp = Some 65\<rparr>"
  have t: "truthy (bearer ?ok)" "truthy (bearer ?bad)" "truthy (bearer ?gone)"
    "\<not> truthy (bearer ?none)"
    by (simp_all add: gate_defs)
  have v1: "verifyToken demo_lib demo_env 10000 (the (bearer ?ok)) = Inr ?d"
    by (simp add: gate_defs demo_defs)
  have v2: "verifyToken demo_lib demo_env 65000 (the (bearer ?ok)) = Inl TokenExpiredError"
    by (simp add: gate_defs demo_defs)
  have v3: "verifyToken demo_lib demo_env 10000 (the (bearer ?bad)) = Inl JsonWebTokenError"
    by (simp add: gate_defs demo_defs)
  have v4: "verifyToken demo_lib demo_env 10000 (the (bearer ?gone)) = Inr ?g"
    by (simp add: gate_defs demo_defs)
  have f1: "findUnique_id demo_db (userId ?d) = Some alice"
    by (simp add: gate_defs demo_defs)
  have f4: "findUnique_id demo_db (userId ?g) = None"
    by (simp add: gate_defs demo_defs)
  show ?thesis
    using authenticate_token_path [of ?ok demo_lib demo_env 10000 demo_db None ?d alice]
      authenticate_token_path [of ?ok demo_lib demo_env 65000 demo_db None ?d alice]
      authenticate_token_path [of ?bad demo_lib demo_env 10000 demo_db None ?d alice]
      authenticate_token_path [of ?gone demo_lib demo_env 10000 demo_db None ?g alice]
      authenticate_token_path [of ?none demo_lib demo_env 10000 demo_db None ?d alice]
      t v1 v2 v3 v4 f1 f4
    by simp
qed

text \<open>
  Claim C8. At this request the claim does not hold of the code: the token is
  malformed, the error is swallowed and the next handler is called, but the request
  does not proceed anonymously. The identity that the session had attached (here the
  stored user \<open>u2\<close>) is still on the request that is passed on, in the branch that the
  source comments as continuing without authentication.
\<close>

theorem optionalAuth_keeps_session_identity:
  "verifyToken demo_lib demo_env 10000 ''garbage'' = Inl JsonWebTokenError \<and>
   optionalAuth demo_lib demo_env 10000 demo_db
     \<lparr>authorization = Some ''Bearer garbage'',
      req_user = Some (select public_fields (user_obj bob))\<rparr> =
   Next \<lparr>authorization = Some ''Bearer garbage'',
         req_user = Some (select public_fields (user_obj bob))\<rparr> \<and>
   isAuthenticated \<lparr>authorization = Some ''Bearer garbage'',
                    req_user = Some (select public_fields (user_obj bob))\<rparr>"
  by (simp add: optionalAuth_def isAuthenticated_def gate_defs demo_defs)

section \<open>Token issuer\<close>

text \<open>
  Claim C4. With a signing secret configured and a wire format that decodes the issued
  token to what was encoded, the token that \<open>generateToken\<close> issues for a user id at
  time \<open>t0\<close> verifies at time \<open>t\<close> to a payload with that user id as long as the clock
  (in seconds) is before the issue time plus the expiry window, and fails with
  \<open>TokenExpiredError\<close> from then on. The window is seven days when none is
  configured. A token whose structure does not decode, or whose signature is not the
  MAC of its payload under the secret, fails with \<open>JsonWebTokenError\<close>.
\<close>

theorem token_round_trip:
  assumes "truthy (JWT_SECRET E)"
    and "p = \<lparr>userId = uid, iat = t0 div 1000, nbf = None,
              exp = Some (t0 div 1000 + expiresIn E)\<rparr>"
    and "jws_parse L (jws_compact L p (jws_mac L (the (JWT_SECRET E)) p)) =
           Some (p, jws_mac L (the (JWT_SECRET E)) p)"
  shows "(\<exists>tok. generateToken L E t0 uid = Inr tok \<and>
            verifyToken L E t tok =
              (if t div 1000 < t0 div 1000 + expiresIn E then Inr p
               else Inl TokenExpiredError)) \<and>
         userId p = uid \<and>
         (JWT_EXPIRES_IN E = None \<longrightarrow> expiresIn E = 7 * 24 * 60 * 60) \<and>
         (jws_parse L tok' = None \<longrightarrow> verifyToken L E t tok' = Inl JsonWebTokenError) \<and>
         (jws_parse L tok' = Some (q, sg) \<and> sg \<noteq> jws_mac L (the (JWT_SECRET E)) q \<longrightarrow>
            verifyToken L E t tok' = Inl JsonWebTokenError)"
  using assms
  by (auto simp: generateToken_def verifyToken_def jwt_sign_def jwt_verify_def Let_def
        expiresIn_def seven_days_def)

text \<open>
  Witness for C4: with a window of 60 seconds the token issued at second 5 verifies up
  to second 64 and is expired at second 65; with no window configured the same holds
  for seven days; a text that is no token and a token with a forged signature are
  malformed.
\<close>

theorem token_round_trip_witness:
  "generateToken demo_lib demo_env 5000 ''u1'' = Inr ''u1.5.65.mac-s3cret-u1'' \<and>
   verifyToken demo_lib demo_env 64999 ''u1.5.65.mac-s3cret-u1'' =
     Inr \<lparr>userId = ''u1'', iat = 5, nbf = None, exp = Some 65\<rparr> \<and>
   verifyToken demo_lib demo_env 65000 ''u1.5.65.mac-s3cret-u1'' = Inl TokenExpiredError \<and>
   generateToken demo_lib (demo_env\<lparr>JWT_EXPIRES_IN := None\<rparr>) 5000 ''u1'' =
     Inr ''u1.5.604805.mac-s3cret-u1'' \<and>
   verifyToken demo_lib (demo_env\<lparr>JWT_EXPIRES_IN := None\<rparr>) 604804999
     ''u1.5.604805.mac-s3cret-u1'' =
     Inr \<lparr>userId = ''u1'', iat = 5, nbf = None, exp = Some 604805\<rparr> \<and>
   verifyToken demo_lib (demo_env\<lparr>JWT_EXPIRES_IN := None\<rparr>) 604805000
     ''u1.5.604805.mac-s3cret-u1'' = Inl TokenExpiredError \<and>
   verifyToken demo_lib demo_env 64999 ''garbage'' = Inl JsonWebTokenError \<and>
   verifyToken demo_lib demo_env 64999 ''u1.5.65.forged'' = Inl JsonWebTokenError"
proof -
  let ?E = "demo_env\<lparr>JWT_EXPIRES_IN := None\<rparr>"
  let ?p = "\<lparr>userId = ''u1'', iat = 5, nbf = None, exp = Some 65\<rparr>"
  let ?q = "\<lparr>userId = ''u1'', iat = 5, nbf = None, exp = Some 604805\<rparr>"
  have s: "truthy (JWT_SECRET demo_env)" "truthy (JWT_SECRET ?E)"
    by (simp_all add: demo_env_def truthy_def)
  have p: "?p = \<lparr>userId = ''u1'', iat = 5000 div 1000, nbf = None,
                  exp = Some (5000 div 1000 + expiresIn demo_env)\<rparr>"
    by (simp add: expiresIn_def demo_env_def)
  have q: "?q = \<lparr>userId = ''u1'', iat = 5000 div 1000, nbf = None,
                  exp = Some (5000 div 1000 + expiresIn ?E)\<rparr>"
    by (simp add: expiresIn_def demo_env_def seven_days_def)
  have c: "jws_parse demo_lib (jws_compact demo_lib ?p (jws_mac demo_lib (the (JWT_SECRET demo_env)) ?p)) =
             Some (?p, jws_mac demo_lib (the (JWT_SECRET demo_env)) ?p)"
    by (simp add: demo_defs string_of_nat.simps)
  have c': "jws_parse demo_lib (jws_compact demo_lib ?q (jws_mac demo_lib (the (JWT_SECRET ?E)) ?q)) =
             Some (?q, jws_mac demo_lib (the (JWT_SECRET ?E)) ?q)"
    by (simp add: demo_defs string_of_nat.simps)
  have g: "generateToken demo_lib demo_env 5000 ''u1'' = Inr ''u1.5.65.mac-s3cret-u1''"
    by (simp add: generateToken_def jwt_sign_def expiresIn_def truthy_def demo_defs
          string_of_nat.simps)
  have g': "generateToken demo_lib ?E 5000 ''u1'' = Inr ''u1.5.604805.mac-s3cret-u1''"
    by (simp add: generateToken_def jwt_sign_def expiresIn_def truthy_def demo_defs
          seven_days_def string_of_nat.simps)
  have m: "jws_parse demo_lib ''garbage'' = None"
    "jws_parse demo_lib ''u1.5.65.forged'' = Some (?p, ''forged'')"
    "''forged'' \<noteq> jws_mac demo_lib (the (JWT_SECRET demo_env)) ?p"
    by (simp_all add: demo_defs)
  have e: "expiresIn demo_env = 60" "expiresIn ?E = 604800"
    by (simp_all add: expiresIn_def demo_env_def seven_days_def)
  show ?thesis
    using token_round_trip [OF s(1) p c, where t = 64999 and tok' = "''garbage''"
                                      and q = ?p and sg = "''forged''"]
      token_round_trip [OF s(1) p c, where t = 65000 and tok' = "''u1.5.65.forged''"
                                      and q = ?p and sg = "''forged''"]
      token_round_trip [OF s(1) p c, where t = 64999 and tok' = "''u1.5.65.forged''"
                                      and q = ?p and sg = "''forged''"]
      token_round_trip [OF s(2) q c', where t = 604804999 and tok' = "''garbage''"
                                      and q = ?p and sg = "''forged''"]
      token_round_trip [OF s(2) q c', where t = 604805000 and tok' = "''garbage''"
                                      and q = ?p and sg = "''forged''"]
      g g' m e
    by simp
qed

section \<open>Identity resolver: local login\<close>

text \<open>
  Claim C2. \<open>loginLocal\<close> fails with \<open>Invalid email or password\<close> when no stored row
  has the email; it fails with \<open>Please use OAuth to login\<close> when the row has no
  password; it fails with the same \<open>Invalid email or password\<close> when the password does
  not verify against the stored hash; otherwise it succeeds with the row's object
  without its \<open>password\<close> key.
\<close>

theorem loginLocal_cases:
  "((\<forall>u \<in> set db. email u \<noteq> em) \<longrightarrow> loginLocal L db em pw = Inl ''Invalid email or password'') \<and>
   (findUnique_email db em = Some u \<and> \<not> truthy (password u) \<longrightarrow>
      loginLocal L db em pw = Inl ''Please use OAuth to login'') \<and>
   (findUnique_email db em = Some u \<and> truthy (password u) \<and>
      \<not> bcrypt_compare L pw (the (password u)) \<longrightarrow>
      loginLocal L db em pw = Inl ''Invalid email or password'') \<and>
   (findUnique_email db em = Some u \<and> truthy (password u) \<and>
      bcrypt_compare L pw (the (password u)) \<longrightarrow>
      (\<exists>ob. loginLocal L db em pw = Inr ob \<and> ''password'' \<notin> set (keys ob) \<and>
            obj_id ob = Some (id_user u) \<and> ob = omit ''password'' (user_obj u)))"
proof (intro conjI impI)
  assume "\<forall>u \<in> set db. email u \<noteq> em"
  then have "find (\<lambda>u. email u = em) db = None" by (simp add: find_None_iff)
  then show "loginLocal L db em pw = Inl ''Invalid email or password''"
    by (simp add: loginLocal_def findUnique_email_def)
next
  assume "findUnique_email db em = Some u \<and> \<not> truthy (password u)"
  then show "loginLocal L db em pw = Inl ''Please use OAuth to login''"
    by (simp add: loginLocal_def)
next
  assume "findUnique_email db em = Some u \<and> truthy (password u) \<and>
      \<not> bcrypt_compare L pw (the (password u))"
  then show "loginLocal L db em pw = Inl ''Invalid email or password''"
    by (simp add: loginLocal_def)
next
  assume "findUnique_email db em = Some u \<and> truthy (password u) \<and>
      bcrypt_compare L pw (the (password u))"
  then show "\<exists>ob. loginLocal L db em pw = Inr ob \<and> ''password'' \<notin> set (keys ob) \<and>
            obj_id ob = Some (id_user u) \<and> ob = omit ''password'' (user_obj u)"
    by (simp add: loginLocal_def keys_def omit_def user_obj_def obj_id_def)
qed

text \<open>
  Witness for C2: an email that is not stored, the Google account without password,
  the local account with a wrong password, and the local account with its password.
\<close>

theorem loginLocal_cases_witness:
  "loginLocal demo_lib demo_db ''z@x.com'' ''pw1'' = Inl ''Invalid email or password'' \<and>
   loginLocal demo_lib demo_db ''b@x.com'' ''pw1'' = Inl ''Please use OAuth to login'' \<and>
   loginLocal demo_lib demo_db ''a@x.com'' ''wrong'' = Inl ''Invalid email or password'' \<and>
   loginLocal demo_lib demo_db ''a@x.com'' ''pw1'' = Inr (omit ''password'' (user_obj alice)) \<and>
   obj_id (omit ''password'' (user_obj alice)) = Some ''u1''"
proof -
  have n: "\<forall>u \<in> set demo_db. email u \<noteq> ''z@x.com''"
    by (simp add: demo_defs)
  have f: "findUnique_email demo_db ''b@x.com'' = Some bob"
    "findUnique_email demo_db ''a@x.com'' = Some alice"
    by (simp_all add: findUnique_email_def demo_defs)
  have t: "\<not> truthy (password bob)" "truthy (password alice)"
    by (simp_all add: truthy_def demo_defs)
  have c: "\<not> bcrypt_compare demo_lib ''wrong'' (the (password alice))"
    "bcrypt_compare demo_lib ''pw1'' (the (password alice))"
    by (simp_all add: demo_defs)
  have i: "id_user alice = ''u1''" by (simp add: alice_def)
  show ?thesis
    using loginLocal_cases [of demo_db "''z@x.com''" demo_lib "''pw1''" bob]
      loginLocal_cases [of demo_db "''b@x.com''" demo_lib "''pw1''" bob]
      loginLocal_cases [of demo_db "''a@x.com''" demo_lib "''wrong''" alice]
      loginLocal_cases [of demo_db "''a@x.com''" demo_lib "''pw1''" alice]
      n f t c i
    by simp
qed

section \<open>Identity resolver: registration\<close>

lemma find_Some_set: "find P xs = Some x \<Longrightarrow> x \<in> set xs \<and> P x"
  by (auto simp: find_Some_iff)

text \<open>
  Claim C1, as stated, fails: the email \<open>a@x.com\<close> is the email of a stored account,
  the username \<open>bob\<close> is the username of another stored account that the store finds
  first, and the answer carries the username message, not the email message.
\<close>

theorem register_duplicate_email_username_message:
  "list_ex (\<lambda>u. email u = ''a@x.com'') demo_db \<and>
   register demo_lib demo_env 10000 ''u3'' demo_db
     ''bob'' ''Carol'' ''Jones'' ''a@x.com'' 27 ''Secur3!@#'' =
   ((400, ErrorBody ''User Already Exists'' ''Username is already taken''), demo_db)"
  by (simp add: register_def findFirst_def demo_defs)

text \<open>
  Claim C1, amended. When a stored row has the email or the username of the request,
  \<open>register\<close> answers 400 \<open>User Already Exists\<close> and leaves the store as it was. The
  message is the email message exactly when the first row that the store finds with
  that email or that username has that email; this is so whenever every row with the
  username has the email as well. It is the username message when no row has the
  email.
\<close>

theorem register_collision:
  "(\<exists>u \<in> set db. email u = em \<or> username u = un) \<longrightarrow>
     (\<exists>m. register L E now nid db un fn ln em ag pw =
             ((400, ErrorBody ''User Already Exists'' m), db) \<and>
          (m = ''User with this email already exists'' \<or> m = ''Username is already taken'') \<and>
          ((m = ''User with this email already exists'') =
             (\<exists>u. findFirst (\<lambda>u. email u = em \<or> username u = un) db = Some u \<and> email u = em)) \<and>
          ((\<forall>u \<in> set db. username u = un \<longrightarrow> email u = em) \<longrightarrow>
             m = ''User with this email already exists'') \<and>
          ((\<forall>u \<in> set db. email u \<noteq> em) \<longrightarrow> m = ''Username is already taken''))"
proof
  assume "\<exists>u \<in> set db. email u = em \<or> username u = un"
  then have "find (\<lambda>u. email u = em \<or> username u = un) db \<noteq> None"
    by (auto simp: find_None_iff)
  then obtain x where x: "find (\<lambda>u. email u = em \<or> username u = un) db = Some x"
    by auto
  then have m: "x \<in> set db" "email x = em \<or> username x = un"
    using find_Some_set [OF x] by auto
  show "\<exists>m. register L E now nid db un fn ln em ag pw =
             ((400, ErrorBody ''User Already Exists'' m), db) \<and>
          (m = ''User with this email already exists'' \<or> m = ''Username is already taken'') \<and>
          ((m = ''User with this email already exists'') =
             (\<exists>u. findFirst (\<lambda>u. email u = em \<or> username u = un) db = Some u \<and> email u = em)) \<and>
          ((\<forall>u \<in> set db. username u = un \<longrightarrow> email u = em) \<longrightarrow>
             m = ''User with this email already exists'') \<and>
          ((\<forall>u \<in> set db. email u \<noteq> em) \<longrightarrow> m = ''Username is already taken'')"
  proof (cases "email x = em")
    case True
    with x m show ?thesis
      by (intro exI [of _ "''User with this email already exists''"])
         (auto simp: register_def findFirst_def)
  next
    case False
    with x m show ?thesis
      by (intro exI [of _ "''Username is already taken''"])
         (auto simp: register_def findFirst_def)
  qed
qed

text \<open>
  Witness for the amended C1: the email of the local account with a new username, the
  same email with that account's own username, and a new email with its username.
\<close>

theorem register_collision_witness:
  "register demo_lib demo_env 10000 ''u3'' demo_db
     ''carol'' ''Carol'' ''Jones'' ''a@x.com'' 27 ''Secur3!@#'' =
   ((400, ErrorBody ''User Already Exists'' ''User with this email already exists''), demo_db) \<and>
   register demo_lib demo_env 10000 ''u3'' demo_db
     ''alice'' ''Carol'' ''Jones'' ''a@x.com'' 27 ''Secur3!@#'' =
   ((400, ErrorBody ''User Already Exists'' ''User with this email already exists''), demo_db) \<and>
   register demo_lib demo_env 10000 ''u3'' demo_db
     ''alice'' ''Carol'' ''Jones'' ''c@x.com'' 27 ''Secur3!@#'' =
   ((400, ErrorBody ''User Already Exists'' ''Username is already taken''), demo_db)"
proof -
  have h: "\<exists>u \<in> set demo_db. email u = ''a@x.com'' \<or> username u = ''carol''"
    "\<exists>u \<in> set demo_db. email u = ''a@x.com'' \<or> username u = ''alice''"
    "\<exists>u \<in> set demo_db. email u = ''c@x.com'' \<or> username u = ''alice''"
    by (simp_all add: demo_defs)
  have a: "\<forall>u \<in> set demo_db. username u = ''carol'' \<longrightarrow> email u = ''a@x.com''"
    "\<forall>u \<in> set demo_db. username u = ''alice'' \<longrightarrow> email u = ''a@x.com''"
    "\<forall>u \<in> set demo_db. email u \<noteq> ''c@x.com''"
    by (simp_all add: demo_defs)
  show ?thesis
    using register_collision [of demo_db "''a@x.com''" "''carol''" demo_lib demo_env 10000
                                 "''u3''" "''Carol''" "''Jones''" 27 "''Secur3!@#''"]
      register_collision [of demo_db "''a@x.com''" "''alice''" demo_lib demo_env 10000
                                 "''u3''" "''Carol''" "''Jones''" 27 "''Secur3!@#''"]
      register_collision [of demo_db "''c@x.com''" "''alice''" demo_lib demo_env 10000
                                 "''u3''" "''Carol''" "''Jones''" 27 "''Secur3!@#''"]
      h a
    by auto
qed

section \<open>Identity resolver: OAuth\<close>


lemma find_only:
  assumes "x \<in> set xs" "P x" "\<forall>y \<in> set xs. P y \<longrightarrow> y = x"
  shows "find P xs = Some x"
proof -
  from assms(1,2) have "find P xs \<noteq> None" by (auto simp: find_None_iff)
  then obtain y where y: "find P xs = Some y" by auto
  from find_Some_set [OF y] have "y \<in> set xs" "P y" by simp_all
  with assms(3) have "y = x" by blast
  with y show ?thesis by simp
qed

lemma length_le1_eq:
  assumes "length zs \<le> 1" "x \<in> set zs" "y \<in> set zs"
  shows "x = y"
proof (cases zs)
  case Nil
  with assms show ?thesis by simp
next
  case (Cons a as)
  with assms(1) have "as = []" by simp
  with Cons assms(2,3) show ?thesis by simp
qed

lemma filter_at_most_one:
  assumes "length (filter P xs) \<le> 1" "x \<in> set xs" "y \<in> set xs" "P x" "P y"
  shows "x = y"
proof -
  from assms have "x \<in> set (filter P xs)" "y \<in> set (filter P xs)" by simp_all
  with assms(1) show ?thesis by (rule length_le1_eq)
qed


lemma set_place [simp]: "set (place pos u db) = insert u (set db)"
proof -
  have "set (take pos db) \<union> set (drop pos db) = set (take pos db @ drop pos db)"
    by (simp only: set_append)
  then have "set (take pos db) \<union> set (drop pos db) = set db"
    by (simp only: append_take_drop_id)
  then show ?thesis unfolding place_def by (simp only: set_append list.set) blast
qed

lemma length_place [simp]: "length (place pos u db) = Suc (length db)"
  by (simp add: place_def)




lemma conflicts_link [simp]:
  "conflicts (link P pid rt' now' (link P pid rt now u)) = conflicts (link P pid rt now u)"
  by (simp add: fun_eq_iff conflicts_def link_def)

lemma id_link [simp]: "id_user (link P pid rt now u) = id_user u"
  by (simp add: link_def)



lemma obj_id_omit [simp]: "obj_id (omit ''password'' (user_obj u)) = Some (id_user u)"
  by (simp add: obj_id_def omit_def user_obj_def)

lemma google_where_link [simp]: "google_where e pid (link Google pid rt now u)"
  by (simp add: google_where_def link_def)

lemma github_where_link [simp]: "github_where e pid (link GitHub pid rt now u)"
  by (simp add: github_where_def link_def)






text \<open>Linking the only row that matches, in a store with unique ids, emails and
  usernames.\<close>

lemma link_existing:
  assumes wf: "wf_db db" and A: "A \<in> set db" and QA: "Q A"
    and only: "\<forall>B \<in> set db. B \<noteq> A \<longrightarrow> \<not> Q B"
    and other: "\<forall>B \<in> set db. B \<noteq> A \<longrightarrow> \<not> (provider B = P \<and> providerId B = Some pid)"
  shows "find Q db = Some A \<and>
         (\<exists>db'. update pos db (id_user A) (link P pid rt now) = Inr (link P pid rt now A, db') \<and>
                length db' = length db \<and>
                set db' = insert (link P pid rt now A) (set db - {A}))"
proof -
  let ?A' = "link P pid rt now A"
  let ?R = "remove1 A db"
  from wf have dist: "distinct db"
    unfolding wf_db_def by (meson distinct_map)
  then have R: "set ?R = set db - {A}" by simp
  from only have "\<forall>y \<in> set db. Q y \<longrightarrow> y = A" by blast
  with A QA have f: "find Q db = Some A" by (rule find_only)
  from wf A have inj: "\<forall>y \<in> set db. y \<noteq> A \<longrightarrow>
      id_user y \<noteq> id_user A \<and> email y \<noteq> email A \<and> username y \<noteq> username A"
    unfolding wf_db_def distinct_map inj_on_def by blast
  then have "\<forall>y \<in> set db. id_user y = id_user A \<longrightarrow> y = A" by blast
  with A have fi: "find (\<lambda>v. id_user v = id_user A) db = Some A"
    by (intro find_only) simp_all
  have nc: "\<not> list_ex (conflicts ?A') ?R"
    using inj other R by (auto simp: list_ex_iff conflicts_def link_def)
  have u: "update pos db (id_user A) (link P pid rt now) = Inr (?A', place pos ?A' ?R)"
    using fi nc by (simp add: update_def)
  have l: "length (place pos ?A' ?R) = length db"
    using A by (simp add: length_remove1) (cases db, simp_all)
  have s: "set (place pos ?A' ?R) = insert ?A' (set db - {A})"
    using R by simp
  from f u l s show ?thesis by blast
qed

text \<open>
  Claim C5, as stated, fails: the Google login reports the email of the stored local
  account \<open>u1\<close>, but its external id is that of the stored Google account \<open>u2\<close>, which
  the store finds first. The callback updates and returns \<open>u2\<close>; the row with the
  reported email stays a local account.
\<close>

theorem oauth_email_match_not_linked:
  "wf_db demo_db \<and> alice \<in> set demo_db \<and> email alice = ''a@x.com'' \<and>
   emails bob_google = [''a@x.com''] \<and> provider alice = Local \<and>
   googleStrategy 10000 ''u3'' 1 demo_db None bob_google =
     Inr (omit ''password'' (user_obj (bob\<lparr>updatedAt := 10000\<rparr>)),
          [alice, bob\<lparr>updatedAt := 10000\<rparr>])"
  by (simp add: wf_db_def oauth_defs demo_defs profile_defs)

text \<open>
  Claim C5, amended. In a store whose ids, emails and usernames are unique, when an
  OAuth login (Google or GitHub) reports an email that is the email of a stored row,
  and no other row already carries the provider with the external id, the callback
  updates that row and returns it: its id, email, username and password are kept, its
  provider is the OAuth provider, its providerId the external id, and its refresh
  token the one received (kept when none is received). No row is added. In particular
  a local account becomes a Google account when a Google login reports its email.
\<close>

theorem oauth_links_by_email:
  "wf_db db \<and> A \<in> set db \<and> email A = e \<and> emails pr = e # es \<and>
   (\<forall>B \<in> set db. B \<noteq> A \<longrightarrow> \<not> (provider B = P \<and> providerId B = Some (profile_id pr))) \<longrightarrow>
     (let A' = link P (profile_id pr) rt now A in
      id_user A' = id_user A \<and> email A' = e \<and> username A' = username A \<and>
      password A' = password A \<and> provider A' = P \<and> providerId A' = Some (profile_id pr) \<and>
      refreshToken A' = (case rt of None \<Rightarrow> refreshToken A | Some r \<Rightarrow> Some r) \<and>
      (P = Google \<longrightarrow>
         (\<exists>db'. googleStrategy now nid pos db rt pr = Inr (omit ''password'' (user_obj A'), db') \<and>
                length db' = length db \<and> set db' = insert A' (set db - {A}))) \<and>
      (P = GitHub \<longrightarrow>
         (\<exists>db'. githubStrategy L now nid pos db rt pr = Inr (omit ''password'' (user_obj A'), db') \<and>
                length db' = length db \<and> set db' = insert A' (set db - {A}))))"
proof
  assume h: "wf_db db \<and> A \<in> set db \<and> email A = e \<and> emails pr = e # es \<and>
   (\<forall>B \<in> set db. B \<noteq> A \<longrightarrow> \<not> (provider B = P \<and> providerId B = Some (profile_id pr)))"
  then have wf: "wf_db db" and A: "A \<in> set db" and e: "email A = e" and pr: "emails pr = e # es"
    and other: "\<forall>B \<in> set db. B \<noteq> A \<longrightarrow> \<not> (provider B = P \<and> providerId B = Some (profile_id pr))"
    by simp_all
  have em: "\<forall>B \<in> set db. B \<noteq> A \<longrightarrow> email B \<noteq> e"
    using wf A e unfolding wf_db_def distinct_map inj_on_def by blast
  let ?A' = "link P (profile_id pr) rt now A"
  have fields: "id_user ?A' = id_user A \<and> email ?A' = e \<and> username ?A' = username A \<and>
      password ?A' = password A \<and> provider ?A' = P \<and> providerId ?A' = Some (profile_id pr) \<and>
      refreshToken ?A' = (case rt of None \<Rightarrow> refreshToken A | Some r \<Rightarrow> Some r)"
    using e by (simp add: link_def)
  have g: "\<exists>db'. googleStrategy now nid pos db rt pr = Inr (omit ''password'' (user_obj ?A'), db') \<and>
                length db' = length db \<and> set db' = insert ?A' (set db - {A})" if "P = Google"
  proof -
    have q: "google_where e (profile_id pr) A" using e by (simp add: google_where_def)
    have o: "\<forall>B \<in> set db. B \<noteq> A \<longrightarrow> \<not> google_where e (profile_id pr) B"
      using em other that by (simp add: google_where_def)
    from link_existing [OF wf A q o other, of pos rt now] obtain db'
      where "find (google_where e (profile_id pr)) db = Some A"
        "update pos db (id_user A) (link P (profile_id pr) rt now) = Inr (?A', db')"
        "length db' = length db" "set db' = insert ?A' (set db - {A})"
      by blast
    with pr that show ?thesis
      by (simp add: googleStrategy_def findFirst_def)
  qed
  have gh: "\<exists>db'. githubStrategy L now nid pos db rt pr = Inr (omit ''password'' (user_obj ?A'), db') \<and>
                length db' = length db \<and> set db' = insert ?A' (set db - {A})" if "P = GitHub"
  proof -
    have fe: "first_email pr = Some e" using pr by (simp add: first_email_def)
    have q: "github_where (Some e) (profile_id pr) A" using e by (simp add: github_where_def)
    have o: "\<forall>B \<in> set db. B \<noteq> A \<longrightarrow> \<not> github_where (Some e) (profile_id pr) B"
      using em other that by (simp add: github_where_def)
    from link_existing [OF wf A q o other, of pos rt now] obtain db'
      where "find (github_where (Some e) (profile_id pr)) db = Some A"
        "update pos db (id_user A) (link P (profile_id pr) rt now) = Inr (?A', db')"
        "length db' = length db" "set db' = insert ?A' (set db - {A})"
      by blast
    with fe that show ?thesis
      by (simp add: githubStrategy_def findFirst_def)
  qed
  show "let A' = link P (profile_id pr) rt now A in
      id_user A' = id_user A \<and> email A' = e \<and> username A' = username A \<and>
      password A' = password A \<and> provider A' = P \<and> providerId A' = Some (profile_id pr) \<and>
      refreshToken A' = (case rt of None \<Rightarrow> refreshToken A | Some r \<Rightarrow> Some r) \<and>
      (P = Google \<longrightarrow>
         (\<exists>db'. googleStrategy now nid pos db rt pr = Inr (omit ''password'' (user_obj A'), db') \<and>
                length db' = length db \<and> set db' = insert A' (set db - {A}))) \<and>
      (P = GitHub \<longrightarrow>
         (\<exists>db'. githubStrategy L now nid pos db rt pr = Inr (omit ''password'' (user_obj A'), db') \<and>
                length db' = length db \<and> set db' = insert A' (set db - {A})))"
    unfolding Let_def using fields g gh by blast
qed

text \<open>
  Witness for the amended C5: the owner of the local account \<open>u1\<close> logs in through
  Google, and through GitHub, with the account's email.
\<close>

theorem oauth_links_by_email_witness:
  "provider alice = Local \<and>
   (\<exists>db'. googleStrategy 10000 ''u3'' 1 demo_db (Some ''rt1'') alice_google =
            Inr (omit ''password'' (user_obj (link Google ''g-1'' (Some ''rt1'') 10000 alice)), db') \<and>
          length db' = 2) \<and>
   provider (link Google ''g-1'' (Some ''rt1'') 10000 alice) = Google \<and>
   id_user (link Google ''g-1'' (Some ''rt1'') 10000 alice) = ''u1'' \<and>
   (\<exists>db'. githubStrategy demo_lib 10000 ''u3'' 1 demo_db None alice_github =
            Inr (omit ''password'' (user_obj (link GitHub ''gh-1'' None 10000 alice)), db') \<and>
          length db' = 2) \<and>
   provider (link GitHub ''gh-1'' None 10000 alice) = GitHub"
proof -
  have h: "wf_db demo_db" "alice \<in> set demo_db" "email alice = ''a@x.com''"
    "emails alice_google = ''a@x.com'' # []" "emails alice_github = ''a@x.com'' # []"
    "profile_id alice_google = ''g-1''" "profile_id alice_github = ''gh-1''"
    "\<forall>B \<in> set demo_db. B \<noteq> alice \<longrightarrow>
       \<not> (provider B = Google \<and> providerId B = Some (profile_id alice_google))"
    "\<forall>B \<in> set demo_db. B \<noteq> alice \<longrightarrow>
       \<not> (provider B = GitHub \<and> providerId B = Some (profile_id alice_github))"
    "length demo_db = 2" "provider alice = Local" "id_user alice = ''u1''"
    by (simp_all add: wf_db_def demo_defs profile_defs)
  show ?thesis
    using oauth_links_by_email [where db = demo_db and A = alice and e = "''a@x.com''"
                                  and pr = alice_google and es = "[]" and P = Google
                                  and rt = "Some ''rt1''" and now = 10000 and nid = "''u3''"
                                  and pos = 1 and L = demo_lib]
      oauth_links_by_email [where db = demo_db and A = alice and e = "''a@x.com''"
                                  and pr = alice_github and es = "[]" and P = GitHub
                                  and rt = None and now = 10000 and nid = "''u3''"
                                  and pos = 1 and L = demo_lib]
      h
    by (auto simp: Let_def)
qed

text \<open>
  Claim C7. At these inputs the claim does not hold of the code. A Google profile
  without name makes the Google callback throw where it reads the given name, before
  any default is substituted; so does a Google profile without email. The GitHub
  callback takes the profile's user name as the username, with no uniqueness suffix,
  and the creation is refused when a stored account has that username.
\<close>

theorem oauth_resolution_can_fail:
  "name noname_google = None \<and> emails noname_google = [''n@x.com''] \<and>
   googleStrategy 10000 ''u3'' 0 demo_db None noname_google = Inl TypeError \<and>
   emails nomail_google = [] \<and>
   googleStrategy 10000 ''u3'' 0 demo_db None nomail_google = Inl TypeError \<and>
   emails taken_github = [] \<and> profile_username taken_github = Some (username alice) \<and>
   githubStrategy demo_lib 10000 ''u3'' 0 demo_db None taken_github =
     Inl UniqueConstraintViolation"
  by (simp add: oauth_defs demo_defs profile_defs github_username_def github_firstName_def
        github_lastName_def)

section \<open>User views\<close>

lemma no_password_select: "''password'' \<notin> set (keys (select public_fields ob))"
  by (auto simp: keys_def select_def public_fields_def)

lemma no_password_omit: "''password'' \<notin> set (keys (omit ''password'' ob))"
  by (auto simp: keys_def omit_def)

lemma loginLocal_no_password: "loginLocal L db em pw = Inr u \<Longrightarrow> ''password'' \<notin> set (keys u)"
  by (auto simp: loginLocal_def no_password_omit split: option.splits if_splits)

lemma googleStrategy_no_password:
  "googleStrategy now nid pos db rt pr = Inr (u, db') \<Longrightarrow> ''password'' \<notin> set (keys u)"
  by (auto simp: googleStrategy_def no_password_omit split: list.splits option.splits sum.splits)

lemma githubStrategy_no_password:
  "githubStrategy L now nid pos db rt pr = Inr (u, db') \<Longrightarrow> ''password'' \<notin> set (keys u)"
  by (auto simp: githubStrategy_def no_password_omit split: option.splits sum.splits)

lemma oauthCallback_no_password:
  assumes "\<And>u db'. r = Inr (u, db') \<Longrightarrow> ''password'' \<notin> set (keys u)"
  shows "\<not> exposes_password (fst (oauthCallback L E now m db r))"
  using assms
  by (auto simp: oauthCallback_def exposes_password_def body_user_def
        split: sum.splits option.splits)

text \<open>
  Claim C9. No response of registration, login, the two OAuth callbacks, getProfile
  and updateProfile carries a user object with a \<open>password\<close> key, whatever the store,
  the request and the libraries are.
\<close>

theorem responses_omit_password:
  "\<not> exposes_password (fst (register L E now nid db un fn ln em ag pw)) \<and>
   \<not> exposes_password (login L E now db em pw) \<and>
   \<not> exposes_password (fst (googleCallback L E now nid pos db rt pr)) \<and>
   \<not> exposes_password (fst (githubCallback L E now nid pos db rt pr)) \<and>
   \<not> exposes_password (getProfile db req) \<and>
   \<not> exposes_password (fst (updateProfile now pos db req un' fn' ln' em' ag'))"
proof (intro conjI)
  show "\<not> exposes_password (fst (register L E now nid db un fn ln em ag pw))"
    by (auto simp: register_def exposes_password_def body_user_def no_password_select Let_def
          split: option.splits sum.splits)
  show "\<not> exposes_password (login L E now db em pw)"
    by (auto simp: login_def exposes_password_def body_user_def
          dest: loginLocal_no_password split: option.splits sum.splits)
  show "\<not> exposes_password (fst (googleCallback L E now nid pos db rt pr))"
    unfolding googleCallback_def
    by (rule oauthCallback_no_password) (rule googleStrategy_no_password)
  show "\<not> exposes_password (fst (githubCallback L E now nid pos db rt pr))"
    unfolding githubCallback_def
    by (rule oauthCallback_no_password) (rule githubStrategy_no_password)
  show "\<not> exposes_password (getProfile db req)"
    by (auto simp: getProfile_def exposes_password_def body_user_def no_password_select
          split: option.splits)
  show "\<not> exposes_password (fst (updateProfile now pos db req un' fn' ln' em' ag'))"
    by (auto simp: updateProfile_def exposes_password_def body_user_def no_password_select
          split: option.splits sum.splits)
qed

text \<open>
  Witness for C9: a registration and a login that succeed. The registered user comes
  back with the selected fields, the logged-in user with every field of the row but
  the password.
\<close>

theorem responses_omit_password_witness:
  "map_option keys (body_user (fst (register demo_lib demo_env 10000 ''u3'' demo_db
      ''carol'' ''Carol'' ''Jones'' ''c@x.com'' 27 ''Secur3!@#''))) = Some public_fields \<and>
   \<not> exposes_password (fst (register demo_lib demo_env 10000 ''u3'' demo_db
      ''carol'' ''Carol'' ''Jones'' ''c@x.com'' 27 ''Secur3!@#'')) \<and>
   map_option keys (body_user (login demo_lib demo_env 10000 demo_db ''a@x.com'' ''pw1'')) =
     Some [''id'', ''username'', ''firstName'', ''lastName'', ''email'', ''age'', ''provider'',
           ''providerId'', ''refreshToken'', ''createdAt'', ''updatedAt''] \<and>
   \<not> exposes_password (login demo_lib demo_env 10000 demo_db ''a@x.com'' ''pw1'')"
proof -
  have r: "map_option keys (body_user (fst (register demo_lib demo_env 10000 ''u3'' demo_db
      ''carol'' ''Carol'' ''Jones'' ''c@x.com'' 27 ''Secur3!@#''))) = Some public_fields"
    by (simp add: register_def findFirst_def create_def conflicts_def generateToken_def
          jwt_sign_def truthy_def body_user_def keys_def select_def user_obj_def
          public_fields_def demo_defs Let_def)
  have l: "map_option keys (body_user (login demo_lib demo_env 10000 demo_db ''a@x.com'' ''pw1'')) =
     Some [''id'', ''username'', ''firstName'', ''lastName'', ''email'', ''age'', ''provider'',
           ''providerId'', ''refreshToken'', ''createdAt'', ''updatedAt'']"
    by (simp add: login_def loginLocal_def findUnique_email_def generateToken_def
          jwt_sign_def truthy_def body_user_def keys_def omit_def user_obj_def obj_id_def
          demo_defs Let_def)
  show ?thesis
    using responses_omit_password
            [where L = demo_lib and E = demo_env and now = 10000 and nid = "''u3''"
               and db = demo_db and un = "''carol''" and fn = "''Carol''" and ln = "''Jones''"
               and em = "''c@x.com''" and ag = 27 and pw = "''Secur3!@#''"]
      responses_omit_password
            [where L = demo_lib and E = demo_env and now = 10000 and nid = "''u3''"
               and db = demo_db and un = "''carol''" and fn = "''Carol''" and ln = "''Jones''"
               and em = "''a@x.com''" and ag = 27 and pw = "''pw1''"]
      r l
    by simp
qed

end
